theory Spec2Isabelle
  imports Main
begin

section \<open>JavaScript values, exceptions and try/catch\<close>

text \<open>
  A thrown value is an \<open>Error\<close> object carrying its message, a \<open>TypeError\<close> (the
  error the runtime raises when a property of \<open>undefined\<close> or \<open>null\<close> is read), or
  one of the values \<open>undefined\<close> and \<open>null\<close>, with which a promise can be rejected.
  A computation that may throw returns \<open>js_error + 'a\<close>, with \<open>Inl\<close> for the exception.

  The calls of \<open>info\<close> and \<open>warning\<close> only write a line to the action's log and return
  nothing; they are left out of the model, as is \<open>Date.now()\<close>, which only feeds a log
  line. Where building the logged text can itself throw (a \<open>JSON.stringify\<close> inside the
  template, the read of \<open>e.message\<close> of a caught value), that throw is modelled.
\<close>

datatype js_error = Error string | TypeError string | Undefined | Null

definition try_catch :: "js_error + 'a \<Rightarrow> (js_error \<Rightarrow> js_error + 'a) \<Rightarrow> js_error + 'a" where
  "try_catch body handler = (case body of Inl e \<Rightarrow> handler e | Inr v \<Rightarrow> Inr v)"

text \<open>
  \<open>e.message\<close> of a caught value \<open>e\<close>: reading a property of \<open>undefined\<close> or of
  \<open>null\<close> throws a TypeError.
\<close>

definition message_of :: "js_error \<Rightarrow> js_error + string" where
  "message_of e =
     (case e of
        Error m \<Rightarrow> Inr m
      | TypeError m \<Rightarrow> Inr m
      | Undefined \<Rightarrow> Inl (TypeError ''Cannot read properties of undefined (reading 'message')'')
      | Null \<Rightarrow> Inl (TypeError ''Cannot read properties of null (reading 'message')''))"

text \<open>
  The handler \<open>catch (e: any) { warning(`...${e.message}`); throw e }\<close> of
  sopRetriever.ts: the caught value is thrown again once its message has been read.
\<close>

definition rethrow :: "js_error \<Rightarrow> js_error + 'a" where
  "rethrow e = (case message_of e of Inl typeError \<Rightarrow> Inl typeError | Inr _ \<Rightarrow> Inl e)"

text \<open>Truthiness of a value of type \<open>string | undefined\<close>: the empty string is falsy.\<close>

definition truthy :: "string option \<Rightarrow> bool" where
  "truthy v = (case v of None \<Rightarrow> False | Some s \<Rightarrow> s \<noteq> [])"

section \<open>bot.ts\<close>

subsection \<open>Data\<close>

record Ids =
  parentMessageId :: "string option"
  conversationId :: "string option"

text \<open>
  \<open>'j\<close> is the type of the values handed to \<open>JSON.stringify\<close>: the \<open>parameters\<close> of
  a schema and the \<open>input\<close> of a tool use.
\<close>

record 'j JsonSchema =
  schema_name :: string
  schema_description :: string
  schema_parameters :: 'j

record Options =
  language :: string
  debug :: bool
  bedrockRetries :: nat

record BedrockOptions =
  model :: string

text \<open>The request, as \<open>chat_\<close> builds it.\<close>

datatype ConversationRole = user | assistant

record Message_in =
  role :: ConversationRole
  content_in :: "string list"

record InferenceConfiguration =
  maxTokens :: nat
  temperature :: nat

record 'j ToolSpecification =
  toolSpec_name :: string
  toolSpec_description :: string
  inputSchema_json :: 'j

record 'j ConverseCommandInput =
  modelId :: string
  messages :: "Message_in list"
  inferenceConfig :: InferenceConfiguration
  toolConfig :: "'j ToolSpecification list option"

text \<open>
  The response. Every member that the code reads through \<open>?.\<close>, \<open>||\<close> or a truthiness
  test is optional; \<open>$metadata\<close> is a required member of every response of the client,
  and its two identifiers are optional. A content block is a bag of optional members,
  of which the code reads \<open>text\<close> and \<open>toolUse\<close>; of a tool use it reads \<open>input\<close>.
  \<open>JSON.stringify\<close> is taken at its TypeScript type: it returns a string or throws.
\<close>

record 'j ToolUseBlock =
  toolUse_input :: 'j

record 'j ContentBlock =
  item_text :: "string option"
  item_toolUse :: "'j ToolUseBlock option"

record 'j Message_out =
  content :: "'j ContentBlock list option"

record 'j ConverseOutput =
  output_message :: "'j Message_out option"

record ResponseMetadata =
  requestId :: "string option"
  cfId :: "string option"

record 'j ConverseCommandOutput =
  response_output :: "'j ConverseOutput option"
  response_metadata :: ResponseMetadata

text \<open>
  A \<open>Bot\<close> holds its options and its client. \<open>client_send k cmd\<close> is what the
  \<open>k\<close>-th attempt (from 0) of \<open>this.client.send(new ConverseCommand(cmd))\<close> resolves
  to within one call of \<open>chat_\<close>.
\<close>

record 'j Bot =
  options :: Options
  bedrockOptions :: BedrockOptions
  client_send :: "nat \<Rightarrow> 'j ConverseCommandInput \<Rightarrow> js_error + 'j ConverseCommandOutput"

subsection \<open>Operations\<close>

text \<open>
  \<open>pRetry(operation, {retries})\<close> of the p-retry library. A thrown value that is not an
  error is turned into a TypeError and ends the run, and so does a TypeError whose
  message is not one of those the library lists for a failed network request. After
  any other failure the operation runs again while retries are left, so at most
  \<open>retries + 1\<close> times, and the last failure is thrown when none is left (section 4.1
  of the specification). The waiting between attempts is not modelled.
\<close>

definition isNetworkError :: "string \<Rightarrow> bool" where
  "isNetworkError errorMessage =
     (errorMessage \<in> set [''Failed to fetch'',
                          ''NetworkError when attempting to fetch resource.'',
                          ''The Internet connection appears to be offline.'',
                          ''Network request failed'',
                          ''fetch failed''])"

definition non_error_thrown :: "string \<Rightarrow> js_error" where
  "non_error_thrown shown =
     TypeError (''Non-error was thrown: '' @ [CHR 0x22] @ shown @ [CHR 0x22]
                  @ ''. You should only throw errors.'')"

text \<open>What a failed attempt does to the run: \<open>Inl\<close> ends it, \<open>Inr\<close> asks for a retry.\<close>

definition failed_attempt :: "js_error \<Rightarrow> js_error + js_error" where
  "failed_attempt e =
     (case e of
        Undefined \<Rightarrow> Inl (non_error_thrown ''undefined'')
      | Null \<Rightarrow> Inl (non_error_thrown ''null'')
      | TypeError m \<Rightarrow> if isNetworkError m then Inr e else Inl e
      | Error m \<Rightarrow> Inr e)"

fun pRetry :: "(nat \<Rightarrow> js_error + 'a) \<Rightarrow> nat \<Rightarrow> nat \<Rightarrow> js_error + 'a" where
  "pRetry operation attempt 0 =
     (case operation attempt of
        Inr v \<Rightarrow> Inr v
      | Inl e \<Rightarrow> (case failed_attempt e of Inl stopped \<Rightarrow> Inl stopped | Inr exhausted \<Rightarrow> Inl exhausted))"
| "pRetry operation attempt (Suc retries) =
     (case operation attempt of
        Inr v \<Rightarrow> Inr v
      | Inl e \<Rightarrow>
          (case failed_attempt e of
             Inl stopped \<Rightarrow> Inl stopped
           | Inr _ \<Rightarrow> pRetry operation (Suc attempt) retries))"

definition empty_Ids :: Ids where
  "empty_Ids = \<lparr>parentMessageId = None, conversationId = None\<rparr>"

definition language_prefix :: "Options \<Rightarrow> string" where
  "language_prefix opts =
     ''IMPORTANT: Entire response must be in the language with ISO code: '' @ language opts
       @ ''\<newline>\<newline>''"

definition commandParams :: "'j Bot \<Rightarrow> string \<Rightarrow> 'j JsonSchema option \<Rightarrow> 'j ConverseCommandInput" where
  "commandParams self message jsonSchema =
     \<lparr>modelId = model (bedrockOptions self),
      messages = [\<lparr>role = user, content_in = [message]\<rparr>],
      inferenceConfig = \<lparr>maxTokens = 4096, temperature = 0\<rparr>,
      toolConfig =
        (case jsonSchema of
           None \<Rightarrow> None
         | Some js \<Rightarrow>
             Some [\<lparr>toolSpec_name = schema_name js,
                    toolSpec_description = schema_description js,
                    inputSchema_json = schema_parameters js\<rparr>])\<rparr>"

text \<open>
  Lines 65 to 70: in debug mode the schema is serialised into a log line, outside every
  \<open>try\<close>. The name and the description are strings, so serialising the schema throws
  when serialising its parameters does. Only the throw matters: the text is logged.
\<close>

definition debug_schema :: "('j \<Rightarrow> js_error + string) \<Rightarrow> 'j Bot \<Rightarrow> 'j JsonSchema option \<Rightarrow> js_error + unit" where
  "debug_schema stringify self jsonSchema =
     (if debug (options self) then
        (case jsonSchema of
           None \<Rightarrow> Inr ()
         | Some js \<Rightarrow>
             (case stringify (schema_parameters js) of Inl e \<Rightarrow> Inl e | Inr _ \<Rightarrow> Inr ()))
      else Inr ())"

text \<open>
  Lines 72 to 117: the request is sent through \<open>pRetry\<close>; the \<open>catch\<close> leaves
  \<open>response\<close> undefined. Its log line prints the caught value with \<open>${e}\<close>, which
  does not read a property of it.
\<close>

definition send_message :: "'j Bot \<Rightarrow> string \<Rightarrow> 'j JsonSchema option \<Rightarrow> 'j ConverseCommandOutput option" where
  "send_message self message jsonSchema =
     (case pRetry (\<lambda>k. client_send self k (commandParams self message jsonSchema)) 0
             (bedrockRetries (options self)) of
        Inl e \<Rightarrow> None
      | Inr r \<Rightarrow> Some r)"

text \<open>
  Lines 127 to 139, the body of the loop over the content: a block with a truthy
  \<open>text\<close> is appended to the accumulator; otherwise a block with a \<open>toolUse\<close> has its
  input serialised into the accumulator, which becomes empty when that throws;
  any other block is skipped.
\<close>

definition content_item :: "('j \<Rightarrow> js_error + string) \<Rightarrow> string \<Rightarrow> 'j ContentBlock \<Rightarrow> js_error + string" where
  "content_item stringify responseText item =
     (if truthy (item_text item) then
        (case item_text item of
           Some t \<Rightarrow> Inr (responseText @ t)
         | None \<Rightarrow> Inr responseText)
      else
        (case item_toolUse item of
           Some tu \<Rightarrow> try_catch (stringify (toolUse_input tu)) (\<lambda>e. Inr [])
         | None \<Rightarrow> Inr responseText))"

fun content_loop :: "('j \<Rightarrow> js_error + string) \<Rightarrow> string \<Rightarrow> 'j ContentBlock list \<Rightarrow> js_error + string" where
  "content_loop stringify responseText [] = Inr responseText"
| "content_loop stringify responseText (item # items) =
     (case content_item stringify responseText item of
        Inl e \<Rightarrow> Inl e
      | Inr responseText' \<Rightarrow> content_loop stringify responseText' items)"

text \<open>\<open>response?.output?.message\<close>\<close>

definition response_message :: "'j ConverseCommandOutput option \<Rightarrow> 'j Message_out option" where
  "response_message response =
     (case response of
        None \<Rightarrow> None
      | Some r \<Rightarrow> (case response_output r of None \<Rightarrow> None | Some out \<Rightarrow> output_message out))"

text \<open>Lines 123 to 142.\<close>

definition responseText_of :: "('j \<Rightarrow> js_error + string) \<Rightarrow> 'j ConverseCommandOutput option \<Rightarrow> js_error + string" where
  "responseText_of stringify response =
     (case response_message response of
        Some msg \<Rightarrow>
          content_loop stringify [] (case content msg of None \<Rightarrow> [] | Some items \<Rightarrow> items)
      | None \<Rightarrow> Inr [])"

text \<open>
  Lines 146 to 149: both identifiers are \<open>undefined\<close> when the response is, and
  otherwise those of its \<open>$metadata\<close>.
\<close>

definition newIds :: "'j ConverseCommandOutput option \<Rightarrow> Ids" where
  "newIds response =
     (case response of
        None \<Rightarrow> \<lparr>parentMessageId = None, conversationId = None\<rparr>
      | Some r \<Rightarrow>
          \<lparr>parentMessageId = requestId (response_metadata r),
           conversationId = cfId (response_metadata r)\<rparr>)"

text \<open>
  \<open>chat'\<close> is the private \<open>chat_\<close> of the class (lines 51 to 151).
\<close>

definition chat' :: "('j \<Rightarrow> js_error + string) \<Rightarrow> 'j Bot \<Rightarrow> string \<Rightarrow> 'j JsonSchema option \<Rightarrow> js_error + (string \<times> Ids)" where
  "chat' stringify self message jsonSchema =
     (if message = [] then Inr ([], empty_Ids)
      else
        (let message' = language_prefix (options self) @ message in
         case debug_schema stringify self jsonSchema of
           Inl e \<Rightarrow> Inl e
         | Inr _ \<Rightarrow>
             (let response = send_message self message' jsonSchema in
              case responseText_of stringify response of
                Inl e \<Rightarrow> Inl e
              | Inr responseText \<Rightarrow> Inr (responseText, newIds response))))"

text \<open>
  Lines 37 to 49: \<open>res\<close> still holds \<open>['', {}]\<close> when the \<open>catch\<close> returns it. The
  handler prints the caught value with \<open>${e}\<close>.
\<close>

definition chat :: "('j \<Rightarrow> js_error + string) \<Rightarrow> 'j Bot \<Rightarrow> string \<Rightarrow> 'j JsonSchema option \<Rightarrow> js_error + (string \<times> Ids)" where
  "chat stringify self message jsonSchema =
     try_catch (chat' stringify self message jsonSchema) (\<lambda>e. Inr ([], empty_Ids))"

section \<open>sopRetriever.ts\<close>

subsection \<open>Data\<close>

text \<open>
  \<open>'n\<close> is the type of JavaScript numbers (scores, vector components) and \<open>'m\<close> the
  type of a metadata object; no arithmetic is done on either. \<open>'e\<close>, \<open>'c\<close> and
  \<open>'i\<close> are the handles of the embedding pipeline, the Pinecone client and the index.
\<close>

record ('n, 'm) SOP =
  sop_text :: string
  sop_id :: "string option"
  sop_score :: "'n option"
  sop_metadata :: "'m option"

record ('n, 'm) ScoredPineconeRecord =
  match_id :: string
  match_score :: "'n option"
  match_metadata :: "'m option"

record ('n, 'm) QueryResponse =
  matches :: "('n, 'm) ScoredPineconeRecord list option"

record 'n QueryOptions =
  vector :: "'n list"
  topK :: nat
  includeMetadata :: bool

record EmbedderOptions =
  pooling :: string
  normalize :: bool

text \<open>
  What the embedder resolves to, by the shapes that lines 93 to 106 tell apart: an
  object with a \<open>data\<close> member (the list is \<open>Array.from(output.data)\<close>), an array, an
  object with a \<open>tolist\<close> method (the list is its result), \<open>null\<close> or \<open>undefined\<close>,
  and any other value (the list is \<open>Array.from(output)\<close>).
\<close>

datatype 'n encoder_output =
  WithData "'n list"
| IsArray "'n list"
| WithTolist "'n list"
| Nullish
| Other "'n list"

text \<open>The calls that leave the module, in the order they are made.\<close>

datatype call =
  CallPipeline
| CallNewPinecone
| CallIndex string
| CallEmbedder string
| CallQuery nat

text \<open>
  The module's three variables (\<open>null\<close> is \<open>None\<close>), and the calls made so far.
\<close>

record ('e, 'c, 'i) module_state =
  embedder :: "'e option"
  pineconeClient :: "'c option"
  pineconeIndex :: "'i option"
  calls :: "call list"

text \<open>
  What the module calls. \<open>getInput\<close> reads the action's inputs and gives the empty
  string for one that is not set. Each of the other functions takes the calls made
  before it, so that a call can fail once and succeed later. \<open>metadata_text\<close> is the
  read of \<open>metadata.text\<close>, at the type the cast \<open>as string\<close> gives it.
\<close>

record ('e, 'c, 'i, 'n, 'm) env =
  getInput :: "string \<Rightarrow> string"
  pipeline :: "call list \<Rightarrow> string \<Rightarrow> string \<Rightarrow> js_error + 'e"
  new_Pinecone :: "call list \<Rightarrow> string \<Rightarrow> js_error + 'c"
  client_index :: "call list \<Rightarrow> 'c \<Rightarrow> string \<Rightarrow> js_error + 'i"
  embedder_call :: "call list \<Rightarrow> 'e \<Rightarrow> string \<Rightarrow> EmbedderOptions \<Rightarrow> js_error + 'n encoder_output"
  index_query :: "call list \<Rightarrow> 'i \<Rightarrow> 'n QueryOptions \<Rightarrow> js_error + ('n, 'm) QueryResponse"
  metadata_text :: "'m \<Rightarrow> string option"

definition initial_state :: "('e, 'c, 'i) module_state" where
  "initial_state = \<lparr>embedder = None, pineconeClient = None, pineconeIndex = None, calls = []\<rparr>"

subsection \<open>Operations\<close>

text \<open>Lines 19 to 30. The \<open>catch\<close> reads \<open>e.message\<close> and throws \<open>e\<close> again.\<close>

definition initializeEmbedder :: "('e, 'c, 'i, 'n, 'm) env \<Rightarrow> ('e, 'c, 'i) module_state \<Rightarrow> (js_error + unit) \<times> ('e, 'c, 'i) module_state" where
  "initializeEmbedder env s =
     (case embedder s of
        None \<Rightarrow>
          (let s1 = s\<lparr>calls := calls s @ [CallPipeline]\<rparr> in
           case try_catch (pipeline env (calls s) ''feature-extraction'' ''Xenova/all-MiniLM-L6-v2'')
                  rethrow of
             Inl e \<Rightarrow> (Inl e, s1)
           | Inr p \<Rightarrow> (Inr (), s1\<lparr>embedder := Some p\<rparr>))
      | Some _ \<Rightarrow> (Inr (), s))"

text \<open>
  \<open>host.match(/^([^.]+)\.svc\./)\<close>: the captured group is the text before the first dot; it must
  not be empty and \<open>.svc.\<close> must follow it.
\<close>

definition host_match :: "string \<Rightarrow> string option" where
  "host_match host =
     (let captured = takeWhile (\<lambda>c. c \<noteq> CHR ''.'') host;
          rest = dropWhile (\<lambda>c. c \<noteq> CHR ''.'') host
      in if captured \<noteq> [] \<and> take 5 rest = ''.svc.'' then Some captured else None)"

text \<open>Lines 42 to 52.\<close>

definition resolve_indexName :: "(string \<Rightarrow> string) \<Rightarrow> string" where
  "resolve_indexName input =
     (let host = input ''pinecone_host'';
          indexName = input ''pinecone_index'';
          indexName =
            (if indexName = [] \<and> host \<noteq> [] then
               (case host_match host of Some captured \<Rightarrow> captured | None \<Rightarrow> indexName)
             else indexName)
      in if indexName = [] then ''sop-embeddings'' else indexName)"

text \<open>
  Lines 35 to 73. The error for the missing key is thrown before the \<open>try\<close>; the
  \<open>catch\<close> reads \<open>e.message\<close> and throws \<open>e\<close> again.
\<close>

definition initializePinecone :: "('e, 'c, 'i, 'n, 'm) env \<Rightarrow> ('e, 'c, 'i) module_state \<Rightarrow> (js_error + unit) \<times> ('e, 'c, 'i) module_state" where
  "initializePinecone env s =
     (case pineconeClient s of
        None \<Rightarrow>
          (let apiKey = getInput env ''pinecone_api_key'';
               indexName = resolve_indexName (getInput env)
           in if apiKey = [] then
                (Inl (Error ''PINECONE_API_KEY environment variable is not set''), s)
              else
                (let s1 = s\<lparr>calls := calls s @ [CallNewPinecone]\<rparr> in
                 case new_Pinecone env (calls s) apiKey of
                   Inl e \<Rightarrow> (rethrow e, s1)
                 | Inr client \<Rightarrow>
                     (let s2 = s1\<lparr>pineconeClient := Some client\<rparr>;
                          s3 = s2\<lparr>calls := calls s2 @ [CallIndex indexName]\<rparr>
                      in case client_index env (calls s2) client indexName of
                           Inl e \<Rightarrow> (rethrow e, s3)
                         | Inr idx \<Rightarrow> (Inr (), s3\<lparr>pineconeIndex := Some idx\<rparr>))))
      | Some _ \<Rightarrow> (Inr (), s))"

text \<open>Lines 91 to 106.\<close>

definition vector_of_output :: "'n encoder_output \<Rightarrow> js_error + 'n list" where
  "vector_of_output out =
     (case out of
        WithData d \<Rightarrow> Inr d
      | IsArray a \<Rightarrow> Inr a
      | WithTolist l \<Rightarrow> Inr l
      | Nullish \<Rightarrow> Inl (TypeError ''Cannot read properties of undefined'')
      | Other l \<Rightarrow> Inr l)"

text \<open>
  Lines 81 to 114, the body of the \<open>try\<close>; a vector whose length is not 384 is logged
  and returned as it is.
\<close>

definition embedText_try :: "('e, 'c, 'i, 'n, 'm) env \<Rightarrow> ('e, 'c, 'i) module_state \<Rightarrow> string \<Rightarrow> (js_error + 'n list) \<times> ('e, 'c, 'i) module_state" where
  "embedText_try env s txt =
     (case initializeEmbedder env s of
        (Inl e, s1) \<Rightarrow> (Inl e, s1)
      | (Inr _, s1) \<Rightarrow>
          (case embedder s1 of
             None \<Rightarrow> (Inl (Error ''Embedder not initialized''), s1)
           | Some enc \<Rightarrow>
               (let s2 = s1\<lparr>calls := calls s1 @ [CallEmbedder txt]\<rparr> in
                case embedder_call env (calls s1) enc txt \<lparr>pooling = ''mean'', normalize = True\<rparr> of
                  Inl e \<Rightarrow> (Inl e, s2)
                | Inr out \<Rightarrow> (vector_of_output out, s2))))"

text \<open>Lines 79 to 119: the \<open>catch\<close> reads \<open>e.message\<close> and throws \<open>e\<close> again.\<close>

definition embedText :: "('e, 'c, 'i, 'n, 'm) env \<Rightarrow> ('e, 'c, 'i) module_state \<Rightarrow> string \<Rightarrow> (js_error + 'n list) \<times> ('e, 'c, 'i) module_state" where
  "embedText env s txt =
     (case embedText_try env s txt of
        (r, s') \<Rightarrow> (try_catch r rethrow, s'))"

text \<open>Lines 153 to 161, the function mapped over the matches.\<close>

definition match_to_sop :: "('e, 'c, 'i, 'n, 'm) env \<Rightarrow> ('n, 'm) ScoredPineconeRecord \<Rightarrow> ('n, 'm) SOP" where
  "match_to_sop env match =
     \<lparr>sop_text =
        (let t = (case match_metadata match of None \<Rightarrow> None | Some md \<Rightarrow> metadata_text env md)
         in if truthy t then (case t of Some x \<Rightarrow> x | None \<Rightarrow> []) else []),
      sop_id = Some (match_id match),
      sop_score = match_score match,
      sop_metadata = match_metadata match\<rparr>"

text \<open>Lines 127 to 167, the body of the \<open>try\<close>.\<close>

definition getRelevantSops_try :: "('e, 'c, 'i, 'n, 'm) env \<Rightarrow> ('e, 'c, 'i) module_state \<Rightarrow> string \<Rightarrow> (js_error + ('n, 'm) SOP list) \<times> ('e, 'c, 'i) module_state" where
  "getRelevantSops_try env s diffChunk =
     (case initializePinecone env s of
        (Inl e, s1) \<Rightarrow> (Inl e, s1)
      | (Inr _, s1) \<Rightarrow>
          (case pineconeIndex s1 of
             None \<Rightarrow> (Inr [], s1)
           | Some idx \<Rightarrow>
               (case embedText env s1 diffChunk of
                  (Inl e, s2) \<Rightarrow> (Inl e, s2)
                | (Inr v, s2) \<Rightarrow>
                    (let s3 = s2\<lparr>calls := calls s2 @ [CallQuery 3]\<rparr> in
                     case index_query env (calls s2) idx
                            \<lparr>vector = v, topK = 3, includeMetadata = True\<rparr> of
                       Inl e \<Rightarrow> (Inl e, s3)
                     | Inr queryResponse \<Rightarrow>
                         (case matches queryResponse of
                            None \<Rightarrow> (Inr [], s3)
                          | Some ms \<Rightarrow>
                              if length ms = 0 then (Inr [], s3)
                              else (Inr (map (match_to_sop env) ms), s3))))))"

text \<open>
  Lines 125 to 173: the \<open>catch\<close> reads \<open>e.message\<close> for its log line and then returns
  \<open>[]\<close>.
\<close>

definition getRelevantSops :: "('e, 'c, 'i, 'n, 'm) env \<Rightarrow> ('e, 'c, 'i) module_state \<Rightarrow> string \<Rightarrow> (js_error + ('n, 'm) SOP list) \<times> ('e, 'c, 'i) module_state" where
  "getRelevantSops env s diffChunk =
     (case getRelevantSops_try env s diffChunk of
        (r, s') \<Rightarrow>
          (try_catch r
             (\<lambda>e. case message_of e of Inl typeError \<Rightarrow> Inl typeError | Inr _ \<Rightarrow> Inr []),
           s'))"

text \<open>The decimal numeral of a natural number, as a template literal prints it.\<close>

definition digit_char :: "nat \<Rightarrow> char" where
  "digit_char d = ''0123456789'' ! d"

fun string_of_nat :: "nat \<Rightarrow> string" where
  "string_of_nat n =
     (if n < 10 then [digit_char n]
      else string_of_nat (n div 10) @ [digit_char (n mod 10)])"

declare string_of_nat.simps [simp del]

text \<open>\<open>Array.prototype.map\<close> with the index, and \<open>Array.prototype.join\<close>.\<close>

fun map_index :: "('a \<Rightarrow> nat \<Rightarrow> 'b) \<Rightarrow> nat \<Rightarrow> 'a list \<Rightarrow> 'b list" where
  "map_index f index [] = []"
| "map_index f index (x # xs) = f x index # map_index f (Suc index) xs"

fun join :: "string \<Rightarrow> string list \<Rightarrow> string" where
  "join sep [] = []"
| "join sep [x] = x"
| "join sep (x # y # ys) = x @ sep @ join sep (y # ys)"

text \<open>
  Lines 185 to 187, the text of one SOP. \<open>toFixed x d\<close> is \<open>x.toFixed(d)\<close> of the
  JavaScript number \<open>x\<close>.
\<close>

definition sop_entry :: "('n \<Rightarrow> nat \<Rightarrow> string) \<Rightarrow> ('n, 'm) SOP \<Rightarrow> nat \<Rightarrow> string" where
  "sop_entry toFixed sop index =
     ''### Relevant SOP '' @ string_of_nat (index + 1)
       @ (if truthy (sop_id sop) then
            '' (ID: '' @ (case sop_id sop of Some i \<Rightarrow> i | None \<Rightarrow> []) @ '')''
          else [])
       @ (case sop_score sop of
            Some x \<Rightarrow> '' (relevance: '' @ toFixed x 3 @ '')''
          | None \<Rightarrow> [])
       @ ''\<newline>\<newline>'' @ sop_text sop"

text \<open>Lines 178 to 196.\<close>

definition formatSopsForPrompt :: "('n \<Rightarrow> nat \<Rightarrow> string) \<Rightarrow> ('n, 'm) SOP list \<Rightarrow> string" where
  "formatSopsForPrompt toFixed sops =
     (if length sops = 0 then []
      else
        (let sopTexts = join ''\<newline>\<newline>'' (map_index (sop_entry toFixed) 0 sops)
         in ''\<newline><relevant_sops>\<newline>'' @ sopTexts @ ''\<newline></relevant_sops>\<newline>''))"

text \<open>
  The states the module can be in under a fixed environment: the initial one, and
  the state after any call of an exported function that changes it.
\<close>

inductive reachable :: "('e, 'c, 'i, 'n, 'm) env \<Rightarrow> ('e, 'c, 'i) module_state \<Rightarrow> bool" for env where
  reachable_initial: "reachable env initial_state"
| reachable_embedText: "reachable env s \<Longrightarrow> reachable env (snd (embedText env s txt))"
| reachable_getRelevantSops: "reachable env s \<Longrightarrow> reachable env (snd (getRelevantSops env s diffChunk))"

code_pred reachable .

section \<open>What the specification states\<close>

text \<open>
  The shapes of the content items that the specification speaks of: a text item
  carries only a text fragment, a tool-call item only a tool use.
\<close>

definition text_block :: "string \<Rightarrow> 'j ContentBlock" where
  "text_block t = \<lparr>item_text = Some t, item_toolUse = None\<rparr>"

definition toolUse_block :: "'j \<Rightarrow> 'j ContentBlock" where
  "toolUse_block v = \<lparr>item_text = None, item_toolUse = Some \<lparr>toolUse_input = v\<rparr>\<rparr>"

text \<open>
  A response that has a message with the given content, and the given metadata.
\<close>

definition response_with :: "'j ContentBlock list \<Rightarrow> ResponseMetadata \<Rightarrow> 'j ConverseCommandOutput" where
  "response_with items md =
     \<lparr>response_output = Some \<lparr>output_message = Some \<lparr>content = Some items\<rparr>\<rparr>,
      response_metadata = md\<rparr>"

text \<open>
  Section 4.4 of the specification, on the index: a query returns at most \<open>topK\<close>
  matches. The index is a service outside the repository; \<open>getRelevantSops\<close> relies on
  this and does not cut the list itself.
\<close>

definition honours_topK :: "('e, 'c, 'i, 'n, 'm) env \<Rightarrow> bool" where
  "honours_topK env =
     (\<forall>h idx q r ms. index_query env h idx q = Inr r \<longrightarrow> matches r = Some ms \<longrightarrow> length ms \<le> topK q)"

text \<open>
  Section 4.6 of the specification, on the heading of one SOP: the ordinal, an optional
  \<open>(ID: ...)\<close> suffix and an optional \<open>(relevance: ...)\<close> suffix, printed by \<open>toFixed\<close>
  with 3 digits. The relevance suffix is there for an SOP that has a score. The ID
  suffix is there for an SOP that has an id which is not the empty string; this is
  where C9 is amended.
\<close>

definition id_suffix :: "('n, 'm) SOP \<Rightarrow> string" where
  "id_suffix sop =
     (case sop_id sop of
        None \<Rightarrow> []
      | Some i \<Rightarrow> if i = [] then [] else '' (ID: '' @ i @ '')'')"

definition relevance_suffix :: "('n \<Rightarrow> nat \<Rightarrow> string) \<Rightarrow> ('n, 'm) SOP \<Rightarrow> string" where
  "relevance_suffix toFixed sop =
     (case sop_score sop of
        None \<Rightarrow> []
      | Some x \<Rightarrow> '' (relevance: '' @ toFixed x 3 @ '')'')"

definition ordinal_heading :: "('n \<Rightarrow> nat \<Rightarrow> string) \<Rightarrow> nat \<Rightarrow> ('n, 'm) SOP \<Rightarrow> string" where
  "ordinal_heading toFixed ordinal sop =
     ''### Relevant SOP '' @ string_of_nat ordinal @ id_suffix sop @ relevance_suffix toFixed sop"

section \<open>Scenarios\<close>

text \<open>
  Concrete inputs on which the theorems below are run. The values handed to
  \<open>JSON.stringify\<close> are \<open>Some n\<close>, a number, which serialises to its numeral, and
  \<open>None\<close>, a value with a cycle, on which \<open>JSON.stringify\<close> throws.
\<close>

definition ex_stringify :: "nat option \<Rightarrow> js_error + string" where
  "ex_stringify v = (case v of Some n \<Rightarrow> Inr (string_of_nat n) | None \<Rightarrow> Inl (TypeError ''Converting circular structure to JSON''))"

definition ex_options :: Options where
  "ex_options = \<lparr>language = ''en'', debug = False, bedrockRetries = 2\<rparr>"

definition ex_metadata :: ResponseMetadata where
  "ex_metadata = \<lparr>requestId = Some ''req-1'', cfId = Some ''cf-1''\<rparr>"

text \<open>
  A client that is throttled at the first attempt and then answers; one that never
  answers; and a bot in debug mode with a schema that cannot be serialised.
\<close>

definition ex_bot :: "nat option ConverseCommandOutput \<Rightarrow> nat option Bot" where
  "ex_bot response =
     \<lparr>options = ex_options,
      bedrockOptions = \<lparr>model = ''model-1''\<rparr>,
      client_send = (\<lambda>k cmd. if k = 0 then Inl (Error ''throttled'') else Inr response)\<rparr>"

definition ex_bot_down :: "nat option Bot" where
  "ex_bot_down =
     \<lparr>options = ex_options,
      bedrockOptions = \<lparr>model = ''model-1''\<rparr>,
      client_send = (\<lambda>k cmd. Inl (Error ''service unavailable''))\<rparr>"

definition ex_bot_debug :: "nat option Bot" where
  "ex_bot_debug =
     \<lparr>options = \<lparr>language = ''en'', debug = True, bedrockRetries = 0\<rparr>,
      bedrockOptions = \<lparr>model = ''model-1''\<rparr>,
      client_send = (\<lambda>k cmd. Inr (response_with [text_block ''ok''] ex_metadata))\<rparr>"

definition ex_schema :: "nat option JsonSchema" where
  "ex_schema = \<lparr>schema_name = ''review'', schema_description = ''a review'', schema_parameters = None\<rparr>"

text \<open>
  An environment of the retriever: the key and the host are set, the download of the
  model fails at the first attempt and succeeds afterwards, and the index holds five
  candidates, of which a query returns the first \<open>topK\<close>. Numbers are integers here,
  and a metadata object is its optional \<open>text\<close>.
\<close>

definition ex_getInput :: "string \<Rightarrow> string" where
  "ex_getInput k =
     (if k = ''pinecone_api_key'' then ''key-1''
      else if k = ''pinecone_host'' then ''sops-2vib48a.svc.aped.pinecone.io''
      else [])"

definition ex_matches :: "(int, string option) ScoredPineconeRecord list" where
  "ex_matches =
     [\<lparr>match_id = ''sop-1'', match_score = Some 9, match_metadata = Some (Some ''Validate inputs'')\<rparr>,
      \<lparr>match_id = ''sop-2'', match_score = Some 7, match_metadata = Some None\<rparr>,
      \<lparr>match_id = ''sop-3'', match_score = None, match_metadata = None\<rparr>,
      \<lparr>match_id = ''sop-4'', match_score = Some 2, match_metadata = Some (Some ''Log errors'')\<rparr>,
      \<lparr>match_id = ''sop-5'', match_score = Some 1, match_metadata = Some (Some ''Name things'')\<rparr>]"

definition ex_env :: "(string, string, string, int, string option) env" where
  "ex_env =
     \<lparr>getInput = ex_getInput,
      pipeline = (\<lambda>h task mdl. if CallPipeline \<in> set h then Inr mdl else Inl (Error ''model download failed'')),
      new_Pinecone = (\<lambda>h apiKey. Inr apiKey),
      client_index = (\<lambda>h client indexName. Inr indexName),
      embedder_call = (\<lambda>h enc t opts. Inr (WithData [1, 0, 0])),
      index_query = (\<lambda>h idx q. Inr \<lparr>matches = Some (take (topK q) ex_matches)\<rparr>),
      metadata_text = (\<lambda>md. md)\<rparr>"

text \<open>
  The state after a first call of \<open>getRelevantSops\<close> in that environment, and the
  state of a module whose client was built while \<open>index\<close> threw.
\<close>

definition ex_state1 :: "(string, string, string) module_state" where
  "ex_state1 =
     \<lparr>embedder = None, pineconeClient = Some ''key-1'', pineconeIndex = Some ''sops-2vib48a'',
      calls = [CallNewPinecone, CallIndex ''sops-2vib48a'', CallPipeline]\<rparr>"

definition ex_state_no_index :: "(string, string, string) module_state" where
  "ex_state_no_index =
     \<lparr>embedder = None, pineconeClient = Some ''key-1'', pineconeIndex = None,
      calls = [CallNewPinecone, CallIndex ''sops-2vib48a'']\<rparr>"

text \<open>
  The same environment without a key, with an \<open>index\<close> that throws, and with a query
  that fails.
\<close>

definition ex_env_no_key :: "(string, string, string, int, string option) env" where
  "ex_env_no_key = ex_env\<lparr>getInput := (\<lambda>k. [])\<rparr>"

definition ex_env_no_index :: "(string, string, string, int, string option) env" where
  "ex_env_no_index = ex_env\<lparr>client_index := (\<lambda>h client indexName. Inl (Error ''index not found''))\<rparr>"

definition ex_env_query_down :: "(string, string, string, int, string option) env" where
  "ex_env_query_down = ex_env\<lparr>index_query := (\<lambda>h idx q. Inl (Error ''request timed out''))\<rparr>"

text \<open>The same environment with a query that is rejected with \<open>undefined\<close>.\<close>

definition ex_env_query_undefined :: "(string, string, string, int, string option) env" where
  "ex_env_query_undefined = ex_env\<lparr>index_query := (\<lambda>h idx q. Inl Undefined)\<rparr>"

text \<open>
  \<open>toFixed\<close> on the integers that are not negative, and some SOPs.
\<close>

definition ex_toFixed :: "int \<Rightarrow> nat \<Rightarrow> string" where
  "ex_toFixed x digits = string_of_nat (nat x) @ ''.'' @ replicate digits (CHR ''0'')"

definition ex_sops :: "(int, string option) SOP list" where
  "ex_sops =
     [\<lparr>sop_text = ''Validate inputs'', sop_id = Some ''sop-1'', sop_score = Some 9, sop_metadata = None\<rparr>,
      \<lparr>sop_text = ''Log errors'', sop_id = None, sop_score = None, sop_metadata = None\<rparr>]"

definition ex_sop_empty_id :: "(int, string option) SOP" where
  "ex_sop_empty_id = \<lparr>sop_text = ''Use early returns'', sop_id = Some [], sop_score = None, sop_metadata = None\<rparr>"

section \<open>Caught values\<close>

lemma rethrow_Error [simp]: "rethrow (Error m) = Inl (Error m)"
  by (simp add: rethrow_def message_of_def)

lemma rethrow_TypeError [simp]: "rethrow (TypeError m) = Inl (TypeError m)"
  by (simp add: rethrow_def message_of_def)

lemma rethrow_error: "e \<noteq> Undefined \<Longrightarrow> e \<noteq> Null \<Longrightarrow> rethrow e = Inl e"
  by (cases e) simp_all

lemma message_of_error: "e \<noteq> Undefined \<Longrightarrow> e \<noteq> Null \<Longrightarrow> \<exists>m. message_of e = Inr m"
  by (cases e) (simp_all add: message_of_def)

lemma message_of_nullish: "e = Undefined \<or> e = Null \<Longrightarrow> \<exists>m. message_of e = Inl (TypeError m)"
  by (auto simp: message_of_def)

section \<open>The content loop and \<open>chat\<close>\<close>

lemma content_item_returns: "\<exists>t. content_item stringify acc item = Inr t"
  by (auto simp: content_item_def try_catch_def split: option.splits sum.splits)

lemma content_loop_returns: "\<exists>t. content_loop stringify acc items = Inr t"
proof (induction items arbitrary: acc)
  case Nil
  show ?case by simp
next
  case (Cons item items)
  obtain t where "content_item stringify acc item = Inr t"
    using content_item_returns by blast
  with Cons show ?case by simp
qed

lemma content_loop_append:
  "content_loop stringify acc (xs @ ys) =
     (case content_loop stringify acc xs of Inl e \<Rightarrow> Inl e | Inr acc' \<Rightarrow> content_loop stringify acc' ys)"
  by (induction xs arbitrary: acc) (auto split: sum.splits)

lemma content_loop_text_blocks:
  "content_loop stringify acc (map text_block ts) = Inr (acc @ concat ts)"
  by (induction ts arbitrary: acc) (auto simp: content_item_def text_block_def truthy_def)

lemma responseText_of_returns: "\<exists>t. responseText_of stringify response = Inr t"
  by (simp add: responseText_of_def content_loop_returns split: option.splits)

lemma responseText_of_None: "responseText_of stringify None = Inr []"
  by (simp add: responseText_of_def response_message_def)

lemma chat_returns: "\<exists>res. chat stringify self message js = Inr res"
  by (cases "chat' stringify self message js") (auto simp: chat_def try_catch_def)

lemma chat_of_throw: "chat' stringify self message js = Inl e \<Longrightarrow> chat stringify self message js = Inr ([], empty_Ids)"
  by (simp add: chat_def try_catch_def)

lemma chat_send_failed:
  assumes "send_message self (language_prefix (options self) @ message) js = None"
  shows "chat stringify self message js = Inr ([], empty_Ids)"
  using assms
  by (auto simp: chat_def chat'_def try_catch_def Let_def responseText_of_None newIds_def empty_Ids_def split: sum.splits)

lemma chat_success:
  assumes "message \<noteq> []"
    and "debug_schema stringify self js = Inr ()"
    and "send_message self (language_prefix (options self) @ message) js =
           Some \<lparr>response_output = Some \<lparr>output_message = Some \<lparr>content = Some items\<rparr>\<rparr>,
                 response_metadata = md\<rparr>"
    and "content_loop stringify [] items = Inr t"
  shows "chat stringify self message js = Inr (t, \<lparr>parentMessageId = requestId md, conversationId = cfId md\<rparr>)"
  using assms
  by (simp add: chat_def chat'_def try_catch_def Let_def responseText_of_def response_message_def newIds_def)

lemma chat_response_ids:
  assumes "message \<noteq> []"
    and "debug_schema stringify self js = Inr ()"
    and "send_message self (language_prefix (options self) @ message) js = Some r"
  shows "\<exists>t. chat stringify self message js =
              Inr (t, \<lparr>parentMessageId = requestId (response_metadata r),
                       conversationId = cfId (response_metadata r)\<rparr>)"
proof -
  obtain t where "responseText_of stringify (Some r) = Inr t"
    using responseText_of_returns by blast
  with assms show ?thesis
    by (simp add: chat_def chat'_def try_catch_def Let_def newIds_def)
qed

lemma ex_send:
  "send_message (ex_bot response) m js = Some response"
  by (simp add: send_message_def ex_bot_def ex_options_def failed_attempt_def eval_nat_numeral)

lemma ex_down:
  "send_message ex_bot_down m js = None"
  by (simp add: send_message_def ex_bot_down_def ex_options_def failed_attempt_def eval_nat_numeral)

lemma ex_debug: "debug_schema stringify (ex_bot response) js = Inr ()"
  by (simp add: debug_schema_def ex_bot_def ex_options_def)

text \<open>
  C1, as amended. \<open>chat\<close> never raises: it always returns a result. When \<open>chat_\<close>
  throws, and when the request fails after all its retries, the result is the empty
  text with both identifiers absent. When a response is received, the result carries
  the identifiers of that response, whatever happens while its content is normalised.
\<close>

theorem chat_never_raises:
  "(\<exists>res. chat stringify self message js = Inr res)
   \<and> (\<forall>e. chat' stringify self message js = Inl e \<longrightarrow>
          chat stringify self message js = Inr ([], \<lparr>parentMessageId = None, conversationId = None\<rparr>))
   \<and> (send_message self (language_prefix (options self) @ message) js = None \<longrightarrow>
          chat stringify self message js = Inr ([], \<lparr>parentMessageId = None, conversationId = None\<rparr>))
   \<and> (\<forall>r.
          message \<noteq> [] \<longrightarrow>
          debug_schema stringify self js = Inr () \<longrightarrow>
          send_message self (language_prefix (options self) @ message) js = Some r \<longrightarrow>
          (\<exists>t. chat stringify self message js =
                 Inr (t, \<lparr>parentMessageId = requestId (response_metadata r),
                          conversationId = cfId (response_metadata r)\<rparr>)))"
  using chat_returns [of stringify self message js] chat_of_throw [of stringify self message js]
    chat_send_failed [of self message js stringify] chat_response_ids [of message stringify self js]
  by (simp add: empty_Ids_def)

theorem chat_never_raises_witness:
  "chat' ex_stringify ex_bot_debug ''Explain X'' (Some ex_schema) =
       Inl (TypeError ''Converting circular structure to JSON'')
   \<and> chat ex_stringify ex_bot_debug ''Explain X'' (Some ex_schema) =
       Inr ([], \<lparr>parentMessageId = None, conversationId = None\<rparr>)
   \<and> send_message ex_bot_down (language_prefix (options ex_bot_down) @ ''Explain X'') None = None
   \<and> chat ex_stringify ex_bot_down ''Explain X'' None =
       Inr ([], \<lparr>parentMessageId = None, conversationId = None\<rparr>)
   \<and> (\<exists>t. chat ex_stringify (ex_bot (response_with [toolUse_block None] ex_metadata))
              ''Explain X'' None =
            Inr (t, \<lparr>parentMessageId = Some ''req-1'', conversationId = Some ''cf-1''\<rparr>))"
proof -
  let ?b = "ex_bot (response_with [toolUse_block None] ex_metadata)"
  have t: "chat' ex_stringify ex_bot_debug ''Explain X'' (Some ex_schema) =
             Inl (TypeError ''Converting circular structure to JSON'')"
    by (simp add: chat'_def debug_schema_def ex_bot_debug_def ex_schema_def ex_stringify_def)
  have d: "send_message ex_bot_down (language_prefix (options ex_bot_down) @ ''Explain X'') None = None"
    by (rule ex_down)
  have s: "send_message ?b (language_prefix (options ?b) @ ''Explain X'') None =
             Some (response_with [toolUse_block None] ex_metadata)"
    by (rule ex_send)
  have m: "response_metadata (response_with [toolUse_block None] ex_metadata :: nat option ConverseCommandOutput)
             = ex_metadata"
    by (simp add: response_with_def)
  have g: "debug_schema ex_stringify ?b None = Inr ()"
    by (rule ex_debug)
  from chat_never_raises [of ex_stringify ex_bot_debug "''Explain X''" "Some ex_schema"] t
  have r1: "chat ex_stringify ex_bot_debug ''Explain X'' (Some ex_schema) =
       Inr ([], \<lparr>parentMessageId = None, conversationId = None\<rparr>)"
    by blast
  from chat_never_raises [of ex_stringify ex_bot_down "''Explain X''" None] d
  have r2: "chat ex_stringify ex_bot_down ''Explain X'' None =
       Inr ([], \<lparr>parentMessageId = None, conversationId = None\<rparr>)"
    by blast
  from chat_never_raises [of ex_stringify ?b "''Explain X''" None] s g
  have r3: "\<exists>t. chat ex_stringify ?b ''Explain X'' None =
            Inr (t, \<lparr>parentMessageId = requestId ex_metadata, conversationId = cfId ex_metadata\<rparr>)"
    by (simp add: m)
  then have r3': "\<exists>t. chat ex_stringify ?b ''Explain X'' None =
            Inr (t, \<lparr>parentMessageId = Some ''req-1'', conversationId = Some ''cf-1''\<rparr>)"
    by (simp add: ex_metadata_def)
  from t r1 d r2 r3' show ?thesis by (intro conjI)
qed

text \<open>
  The claim C1 as it is written fails where the serialisation of a tool payload
  throws: the result has the text that follows the tool call and the identifiers of
  the response.
\<close>

theorem serialization_failure_keeps_ids:
  "ex_stringify None = Inl (TypeError ''Converting circular structure to JSON'')
   \<and> chat ex_stringify (ex_bot (response_with [toolUse_block None, text_block ''abc''] ex_metadata))
        ''Explain X'' None
      = Inr (''abc'', \<lparr>parentMessageId = Some ''req-1'', conversationId = Some ''cf-1''\<rparr>)
   \<and> chat ex_stringify (ex_bot (response_with [toolUse_block None, text_block ''abc''] ex_metadata))
        ''Explain X'' None
      \<noteq> Inr ([], \<lparr>parentMessageId = None, conversationId = None\<rparr>)"
  by (simp add: chat_def chat'_def try_catch_def ex_send ex_debug responseText_of_def response_message_def
      response_with_def newIds_def content_item_def toolUse_block_def text_block_def truthy_def
      ex_stringify_def ex_metadata_def)

text \<open>
  C3. The content is processed in the order of the response, and the serialised
  input of a tool-call item replaces what was accumulated before it: when the content
  ends with a tool-call item, after a text item or after any other items, the result
  text of \<open>chat\<close> is the serialised input of that tool call.
\<close>

theorem tool_call_replaces_text:
  assumes "message \<noteq> []"
    and "debug_schema stringify self js = Inr ()"
    and "send_message self (language_prefix (options self) @ message) js =
           Some (response_with (pre @ [toolUse_block v]) md)"
    and "stringify v = Inr payload"
  shows "chat stringify self message js =
           Inr (payload, \<lparr>parentMessageId = requestId md, conversationId = cfId md\<rparr>)"
proof -
  obtain acc where "content_loop stringify [] pre = Inr acc"
    using content_loop_returns by blast
  then have "content_loop stringify [] (pre @ [toolUse_block v]) = Inr payload"
    using assms(4)
    by (simp add: content_loop_append content_item_def toolUse_block_def truthy_def try_catch_def)
  with assms(1-3) show ?thesis
    unfolding response_with_def by (rule chat_success)
qed

theorem tool_call_replaces_text_witness:
  "chat ex_stringify (ex_bot (response_with [text_block ''Here is the JSON: '', toolUse_block (Some 42)] ex_metadata))
        ''Explain X'' None
     = Inr (''42'', \<lparr>parentMessageId = Some ''req-1'', conversationId = Some ''cf-1''\<rparr>)"
  using tool_call_replaces_text [of "''Explain X''" ex_stringify
      "ex_bot (response_with [text_block ''Here is the JSON: '', toolUse_block (Some 42)] ex_metadata)"
      None "[text_block ''Here is the JSON: '']" "Some 42" ex_metadata "''42''"]
  by (simp add: ex_send ex_debug ex_stringify_def ex_metadata_def string_of_nat.simps digit_char_def)

text \<open>
  C6. For a response whose content consists of text items only, the result text of
  \<open>chat\<close> is the concatenation of the fragments in their order.
\<close>

theorem text_only_concatenated:
  assumes "message \<noteq> []"
    and "debug_schema stringify self js = Inr ()"
    and "send_message self (language_prefix (options self) @ message) js =
           Some (response_with (map text_block ts) md)"
  shows "chat stringify self message js =
           Inr (concat ts, \<lparr>parentMessageId = requestId md, conversationId = cfId md\<rparr>)"
proof -
  have "content_loop stringify [] (map text_block ts) = Inr (concat ts)"
    by (simp add: content_loop_text_blocks)
  with assms show ?thesis
    unfolding response_with_def by (rule chat_success)
qed

theorem text_only_concatenated_witness:
  "chat ex_stringify (ex_bot (response_with (map text_block [''Looks '', ''good'', ''.'']) ex_metadata))
        ''Review this'' None
     = Inr (''Looks good.'', \<lparr>parentMessageId = Some ''req-1'', conversationId = Some ''cf-1''\<rparr>)"
  using text_only_concatenated [of "''Review this''" ex_stringify
      "ex_bot (response_with (map text_block [''Looks '', ''good'', ''.'']) ex_metadata)"
      None "[''Looks '', ''good'', ''.'']" ex_metadata]
  by (simp add: ex_send ex_debug ex_metadata_def)

text \<open>
  C7. When the serialisation of the input of a tool-call item throws, the loop body
  returns the empty text and raises nothing, and so does the loop that ends with
  that item.
\<close>

theorem serialization_failure_contained:
  assumes "\<not> truthy (item_text item)"
    and "item_toolUse item = Some tu"
    and "stringify (toolUse_input tu) = Inl e"
  shows "content_item stringify responseText item = Inr []
       \<and> content_loop stringify responseText (pre @ [item]) = Inr []"
proof -
  have step: "content_item stringify acc item = Inr []" for acc
    using assms by (simp add: content_item_def try_catch_def)
  obtain acc where "content_loop stringify responseText pre = Inr acc"
    using content_loop_returns by blast
  then have "content_loop stringify responseText (pre @ [item]) = Inr []"
    by (simp add: content_loop_append step)
  with step show ?thesis by simp
qed

theorem serialization_failure_contained_witness:
  "content_item ex_stringify ''so far'' (toolUse_block None) = Inr []
   \<and> content_loop ex_stringify ''so far'' ([text_block '' and more''] @ [toolUse_block None]) = Inr []"
  using serialization_failure_contained [of "toolUse_block None" "\<lparr>toolUse_input = None\<rparr>" ex_stringify
      "TypeError ''Converting circular structure to JSON''" "''so far''" "[text_block '' and more'']"]
  by (simp add: toolUse_block_def truthy_def ex_stringify_def)

text \<open>
  C10. Text items after a tool-call item are appended to the serialised input of the
  tool call: for a tool-call item followed by text items, the result text of \<open>chat\<close>
  is the serialised input followed by those fragments.
\<close>

theorem text_after_tool_call_appended:
  assumes "message \<noteq> []"
    and "debug_schema stringify self js = Inr ()"
    and "send_message self (language_prefix (options self) @ message) js =
           Some (response_with (pre @ toolUse_block v # map text_block ts) md)"
    and "stringify v = Inr payload"
  shows "chat stringify self message js =
           Inr (payload @ concat ts, \<lparr>parentMessageId = requestId md, conversationId = cfId md\<rparr>)"
proof -
  obtain acc where "content_loop stringify [] pre = Inr acc"
    using content_loop_returns by blast
  then have "content_loop stringify [] (pre @ toolUse_block v # map text_block ts) = Inr (payload @ concat ts)"
    using assms(4)
    by (simp add: content_loop_append content_loop_text_blocks content_item_def toolUse_block_def
        truthy_def try_catch_def)
  with assms(1-3) show ?thesis
    unfolding response_with_def by (rule chat_success)
qed

theorem text_after_tool_call_appended_witness:
  "chat ex_stringify (ex_bot (response_with [toolUse_block (Some 7), text_block '' is the answer''] ex_metadata))
        ''Explain X'' None
     = Inr (''7 is the answer'', \<lparr>parentMessageId = Some ''req-1'', conversationId = Some ''cf-1''\<rparr>)"
  using text_after_tool_call_appended [of "''Explain X''" ex_stringify
      "ex_bot (response_with [toolUse_block (Some 7), text_block '' is the answer''] ex_metadata)"
      None "[]" "Some 7" "['' is the answer'']" ex_metadata "''7''"]
  by (simp add: ex_send ex_debug ex_stringify_def ex_metadata_def string_of_nat.simps digit_char_def)

section \<open>The embedder and the index client\<close>

lemma initializeEmbedder_fails:
  assumes "embedder s = None"
    and "pipeline env (calls s) ''feature-extraction'' ''Xenova/all-MiniLM-L6-v2'' = Inl e"
  shows "initializeEmbedder env s = (rethrow e, s\<lparr>calls := calls s @ [CallPipeline]\<rparr>)"
  using assms by (cases e) (simp_all add: initializeEmbedder_def try_catch_def rethrow_def message_of_def)

lemma initializeEmbedder_succeeds:
  assumes "embedder s = None"
    and "pipeline env (calls s) ''feature-extraction'' ''Xenova/all-MiniLM-L6-v2'' = Inr enc"
  shows "initializeEmbedder env s = (Inr (), s\<lparr>calls := calls s @ [CallPipeline], embedder := Some enc\<rparr>)"
  using assms by (simp add: initializeEmbedder_def try_catch_def)

lemma embedText_construction_fails:
  assumes "embedder s = None"
    and "pipeline env (calls s) ''feature-extraction'' ''Xenova/all-MiniLM-L6-v2'' = Inl e"
  shows "embedText env s txt = (rethrow e, s\<lparr>calls := calls s @ [CallPipeline]\<rparr>)"
  using initializeEmbedder_fails [OF assms]
  by (cases e) (simp_all add: embedText_def embedText_try_def try_catch_def rethrow_def message_of_def)

lemma embedText_constructs_first:
  assumes "embedder s = None"
  shows "take (Suc (length (calls s))) (calls (snd (embedText env s txt))) = calls s @ [CallPipeline]"
proof (cases "pipeline env (calls s) ''feature-extraction'' ''Xenova/all-MiniLM-L6-v2''")
  case (Inl e)
  with assms show ?thesis by (simp add: embedText_construction_fails)
next
  case (Inr enc)
  with assms show ?thesis
    by (simp add: embedText_def embedText_try_def initializeEmbedder_succeeds Let_def split: sum.splits)
qed

lemma vector_of_output_caught: "try_catch (vector_of_output out) rethrow = vector_of_output out"
  by (cases out) (simp_all add: vector_of_output_def try_catch_def)

lemma embedText_construction_succeeds:
  assumes "embedder s = None"
    and "pipeline env (calls s) ''feature-extraction'' ''Xenova/all-MiniLM-L6-v2'' = Inr enc"
  shows "embedder (snd (embedText env s txt)) = Some enc
       \<and> fst (embedText env s txt) =
           (case embedder_call env (calls s @ [CallPipeline]) enc txt \<lparr>pooling = ''mean'', normalize = True\<rparr> of
              Inl e \<Rightarrow> rethrow e
            | Inr out \<Rightarrow> vector_of_output out)"
  using assms
  by (simp add: embedText_def embedText_try_def initializeEmbedder_succeeds Let_def
      vector_of_output_caught split: sum.splits)
     (simp add: try_catch_def)

lemma initializeEmbedder_pinecone:
  "pineconeClient (snd (initializeEmbedder env s)) = pineconeClient s
   \<and> pineconeIndex (snd (initializeEmbedder env s)) = pineconeIndex s"
  by (simp add: initializeEmbedder_def try_catch_def Let_def split: option.splits sum.splits)

lemma embedText_pinecone:
  "pineconeClient (snd (embedText env s txt)) = pineconeClient s
   \<and> pineconeIndex (snd (embedText env s txt)) = pineconeIndex s"
proof -
  obtain r s1 where i: "initializeEmbedder env s = (r, s1)"
    by (cases "initializeEmbedder env s")
  with initializeEmbedder_pinecone [of env s]
  have "pineconeClient s1 = pineconeClient s \<and> pineconeIndex s1 = pineconeIndex s"
    by simp
  with i show ?thesis
    by (simp add: embedText_def embedText_try_def Let_def split: sum.splits option.splits)
qed

text \<open>An error that leaves \<open>embedText\<close> or \<open>initializePinecone\<close> is never \<open>undefined\<close> or \<open>null\<close>.\<close>

lemma try_catch_rethrow_error:
  "try_catch r rethrow = Inl e \<Longrightarrow> e \<noteq> Undefined \<and> e \<noteq> Null"
proof (cases r)
  case (Inl e0)
  assume "try_catch r rethrow = Inl e"
  with Inl show ?thesis
    by (cases e0) (auto simp: try_catch_def rethrow_def message_of_def)
next
  case (Inr v)
  assume "try_catch r rethrow = Inl e"
  with Inr show ?thesis by (simp add: try_catch_def)
qed

lemma rethrow_gives_error: "rethrow e0 = Inl e \<Longrightarrow> e \<noteq> Undefined \<and> e \<noteq> Null"
  by (cases e0) (auto simp: rethrow_def message_of_def)

lemma embedText_error:
  assumes "fst (embedText env s txt) = Inl e"
  shows "e \<noteq> Undefined \<and> e \<noteq> Null"
proof -
  obtain r s' where "embedText_try env s txt = (r, s')"
    by (cases "embedText_try env s txt")
  with assms have "try_catch r rethrow = Inl e"
    by (simp add: embedText_def)
  then show ?thesis by (rule try_catch_rethrow_error)
qed

lemma initializePinecone_error:
  assumes "fst (initializePinecone env s) = Inl e"
  shows "e \<noteq> Undefined \<and> e \<noteq> Null"
  using assms
  by (auto simp: initializePinecone_def Let_def dest: rethrow_gives_error
      split: option.splits if_splits sum.splits)

lemma initializePinecone_no_key:
  assumes "getInput env ''pinecone_api_key'' = []"
    and "pineconeClient s = None"
  shows "initializePinecone env s = (Inl (Error ''PINECONE_API_KEY environment variable is not set''), s)"
  using assms by (simp add: initializePinecone_def Let_def)

lemma getRelevantSops_no_key:
  assumes "getInput env ''pinecone_api_key'' = []"
    and "pineconeClient s = None"
  shows "getRelevantSops env s d = (Inr [], s)"
  using assms
  by (simp add: getRelevantSops_def getRelevantSops_try_def initializePinecone_no_key try_catch_def
      message_of_def)

lemma reachable_no_key:
  assumes "getInput env ''pinecone_api_key'' = []"
    and "reachable env s"
  shows "pineconeClient s = None"
  using assms(2)
proof (induction rule: reachable.induct)
  case reachable_initial
  show ?case by (simp add: initial_state_def)
next
  case (reachable_embedText s t)
  then show ?case by (simp add: embedText_pinecone)
next
  case (reachable_getRelevantSops s diffChunk)
  then show ?case by (simp add: getRelevantSops_no_key assms(1))
qed

text \<open>
  C5. When the key is not configured, \<open>initializePinecone\<close> raises the error in every
  state the module can reach, and it leaves the state as it was: no call has left the
  module, nothing was tried again, and the error is returned to the caller of
  \<open>initializePinecone\<close>.
\<close>

theorem missing_credential_raises:
  assumes "getInput env ''pinecone_api_key'' = []"
    and "reachable env s"
  shows "initializePinecone env s =
           (Inl (Error ''PINECONE_API_KEY environment variable is not set''), s)"
  using assms by (simp add: initializePinecone_no_key reachable_no_key)

theorem missing_credential_raises_witness:
  "getInput ex_env_no_key ''pinecone_api_key'' = []
   \<and> reachable ex_env_no_key (snd (getRelevantSops ex_env_no_key initial_state ''fix null pointer''))
   \<and> initializePinecone ex_env_no_key (snd (getRelevantSops ex_env_no_key initial_state ''fix null pointer'')) =
       (Inl (Error ''PINECONE_API_KEY environment variable is not set''),
        snd (getRelevantSops ex_env_no_key initial_state ''fix null pointer''))"
proof -
  have k: "getInput ex_env_no_key ''pinecone_api_key'' = []"
    by (simp add: ex_env_no_key_def)
  have r: "reachable ex_env_no_key (snd (getRelevantSops ex_env_no_key initial_state ''fix null pointer''))"
    by (intro reachable_getRelevantSops reachable_initial)
  from k r missing_credential_raises [OF k r] show ?thesis by simp
qed

text \<open>
  C8. When the construction of the encoder fails during \<open>embedText\<close>, an error is raised
  to the caller, which is that failure itself when it is an error object (and the
  TypeError of reading its message when it is \<open>undefined\<close> or \<open>null\<close>), and \<open>embedder\<close>
  stays \<open>null\<close>; the next \<open>embedText\<close> begins by constructing the encoder again, and
  when that construction succeeds the encoder is installed and used for the
  embedding.
\<close>

theorem embedder_construction_retried:
  assumes "embedder s = None"
    and "pipeline env (calls s) ''feature-extraction'' ''Xenova/all-MiniLM-L6-v2'' = Inl e"
  shows "embedText env s t1 = (rethrow e, s\<lparr>calls := calls s @ [CallPipeline]\<rparr>)
       \<and> (\<exists>e'. fst (embedText env s t1) = Inl e')
       \<and> (e \<noteq> Undefined \<longrightarrow> e \<noteq> Null \<longrightarrow>
            embedText env s t1 = (Inl e, s\<lparr>calls := calls s @ [CallPipeline]\<rparr>))
       \<and> embedder (snd (embedText env s t1)) = None
       \<and> take (Suc (length (calls (snd (embedText env s t1)))))
              (calls (snd (embedText env (snd (embedText env s t1)) t2)))
           = calls (snd (embedText env s t1)) @ [CallPipeline]
       \<and> (\<forall>enc. pipeline env (calls (snd (embedText env s t1))) ''feature-extraction'' ''Xenova/all-MiniLM-L6-v2'' = Inr enc \<longrightarrow>
              embedder (snd (embedText env (snd (embedText env s t1)) t2)) = Some enc
            \<and> fst (embedText env (snd (embedText env s t1)) t2) =
                (case embedder_call env (calls (snd (embedText env s t1)) @ [CallPipeline]) enc t2
                        \<lparr>pooling = ''mean'', normalize = True\<rparr> of
                   Inl e' \<Rightarrow> rethrow e'
                 | Inr out \<Rightarrow> vector_of_output out))"
proof -
  let ?s1 = "s\<lparr>calls := calls s @ [CallPipeline]\<rparr>"
  have first: "embedText env s t1 = (rethrow e, ?s1)"
    using assms by (rule embedText_construction_fails)
  have raised: "\<exists>e'. fst (embedText env s t1) = Inl e'"
    unfolding first by (cases e) (simp_all add: rethrow_def message_of_def)
  have same: "e \<noteq> Undefined \<longrightarrow> e \<noteq> Null \<longrightarrow> embedText env s t1 = (Inl e, ?s1)"
    unfolding first by (simp add: rethrow_error)
  have null: "embedder ?s1 = None"
    using assms(1) by simp
  have again: "take (Suc (length (calls ?s1))) (calls (snd (embedText env ?s1 t2))) = calls ?s1 @ [CallPipeline]"
    using null by (rule embedText_constructs_first)
  have ok: "embedder (snd (embedText env ?s1 t2)) = Some enc
            \<and> fst (embedText env ?s1 t2) =
                (case embedder_call env (calls ?s1 @ [CallPipeline]) enc t2
                        \<lparr>pooling = ''mean'', normalize = True\<rparr> of
                   Inl e' \<Rightarrow> rethrow e'
                 | Inr out \<Rightarrow> vector_of_output out)"
    if "pipeline env (calls ?s1) ''feature-extraction'' ''Xenova/all-MiniLM-L6-v2'' = Inr enc" for enc
    using null that by (rule embedText_construction_succeeds)
  have sn: "snd (embedText env s t1) = ?s1"
    using first by simp
  show ?thesis
    unfolding sn using first raised same null again ok by blast
qed

theorem embedder_construction_retried_witness:
  "embedText ex_env initial_state ''first'' =
     (Inl (Error ''model download failed''), initial_state\<lparr>calls := [CallPipeline]\<rparr>)
   \<and> embedText ex_env (snd (embedText ex_env initial_state ''first'')) ''second'' =
     (Inr [1, 0, 0],
      \<lparr>embedder = Some ''Xenova/all-MiniLM-L6-v2'', pineconeClient = None, pineconeIndex = None,
        calls = [CallPipeline, CallPipeline, CallEmbedder ''second'']\<rparr>)"
proof -
  have e: "embedder (initial_state :: (string, string, string) module_state) = None"
    by (simp add: initial_state_def)
  have p: "pipeline ex_env (calls (initial_state :: (string, string, string) module_state))
             ''feature-extraction'' ''Xenova/all-MiniLM-L6-v2'' = Inl (Error ''model download failed'')"
    by (simp add: ex_env_def initial_state_def)
  have first: "embedText ex_env initial_state ''first'' =
     (Inl (Error ''model download failed''), initial_state\<lparr>calls := [CallPipeline]\<rparr>)"
    using embedder_construction_retried [OF e p, of "''first''" "''second''"]
    by (simp add: initial_state_def)
  have second: "embedText ex_env (initial_state\<lparr>calls := [CallPipeline]\<rparr>) ''second'' =
     (Inr [1, 0, 0],
      \<lparr>embedder = Some ''Xenova/all-MiniLM-L6-v2'', pineconeClient = None, pineconeIndex = None,
        calls = [CallPipeline, CallPipeline, CallEmbedder ''second'']\<rparr>)"
    by (simp add: embedText_def embedText_try_def initializeEmbedder_def try_catch_def Let_def
        initial_state_def ex_env_def vector_of_output_def)
  from first second show ?thesis by simp
qed

section \<open>\<open>getRelevantSops\<close>\<close>

lemma ex_indexName: "resolve_indexName ex_getInput = ''sops-2vib48a''"
  by (simp add: resolve_indexName_def ex_getInput_def host_match_def)

lemma ex_init: "initializePinecone ex_env initial_state =
    (Inr (), \<lparr>embedder = None, pineconeClient = Some ''key-1'', pineconeIndex = Some ''sops-2vib48a'',
      calls = [CallNewPinecone, CallIndex ''sops-2vib48a'']\<rparr>)"
  by (simp add: initializePinecone_def initial_state_def Let_def ex_env_def ex_indexName)
     (simp add: ex_getInput_def)

lemma ex_first_call: "getRelevantSops ex_env initial_state ''fix null pointer'' = (Inr [], ex_state1)"
  by (simp add: getRelevantSops_def getRelevantSops_try_def ex_init embedText_def embedText_try_def
      initializeEmbedder_def try_catch_def Let_def ex_state1_def)
     (simp add: ex_env_def message_of_def)

lemma ex_second_call: "fst (getRelevantSops ex_env ex_state1 ''fix null pointer'') =
   Inr [\<lparr>sop_text = ''Validate inputs'', sop_id = Some ''sop-1'', sop_score = Some 9, sop_metadata = Some (Some ''Validate inputs'')\<rparr>,
        \<lparr>sop_text = [], sop_id = Some ''sop-2'', sop_score = Some 7, sop_metadata = Some None\<rparr>,
        \<lparr>sop_text = [], sop_id = Some ''sop-3'', sop_score = None, sop_metadata = None\<rparr>]"
  by (simp add: getRelevantSops_def getRelevantSops_try_def initializePinecone_def embedText_def
      embedText_try_def initializeEmbedder_def try_catch_def Let_def ex_state1_def ex_env_def
      vector_of_output_def ex_matches_def match_to_sop_def truthy_def)

lemma getRelevantSops_fst:
  "fst (getRelevantSops env s d) =
     (case fst (getRelevantSops_try env s d) of
        Inl e \<Rightarrow> (case message_of e of Inl typeError \<Rightarrow> Inl typeError | Inr _ \<Rightarrow> Inr [])
      | Inr sops \<Rightarrow> Inr sops)"
  by (cases "getRelevantSops_try env s d")
     (simp add: getRelevantSops_def try_catch_def split: sum.splits)

lemma getRelevantSops_error_caught:
  assumes "fst (getRelevantSops_try env s d) = Inl e"
    and "e \<noteq> Undefined" and "e \<noteq> Null"
  shows "fst (getRelevantSops env s d) = Inr []"
proof -
  obtain m where "message_of e = Inr m"
    using message_of_error [OF assms(2,3)] by blast
  with assms(1) show ?thesis by (simp add: getRelevantSops_fst)
qed

lemma getRelevantSops_nullish_raised:
  assumes "fst (getRelevantSops_try env s d) = Inl e"
    and "e = Undefined \<or> e = Null"
  shows "fst (getRelevantSops env s d) = rethrow e"
  using assms by (auto simp: getRelevantSops_fst rethrow_def message_of_def)

text \<open>
  What the body of the \<open>try\<close> gives: an error that is not \<open>undefined\<close> or \<open>null\<close>, an
  error with which the query itself was rejected, the empty list, or the SOPs of the
  matches of the query.
\<close>

lemma try_result:
  "(\<exists>e. fst (getRelevantSops_try env s d) = Inl e \<and> e \<noteq> Undefined \<and> e \<noteq> Null)
   \<or> (\<exists>h idx v e.
         index_query env h idx \<lparr>vector = v, topK = 3, includeMetadata = True\<rparr> = Inl e
         \<and> fst (getRelevantSops_try env s d) = Inl e)
   \<or> fst (getRelevantSops_try env s d) = Inr []
   \<or> (\<exists>h idx v resp ms.
         index_query env h idx \<lparr>vector = v, topK = 3, includeMetadata = True\<rparr> = Inr resp
         \<and> matches resp = Some ms
         \<and> fst (getRelevantSops_try env s d) = Inr (map (match_to_sop env) ms))"
proof (cases "initializePinecone env s")
  case i: (Pair r1 s1)
  show ?thesis
  proof (cases r1)
    case (Inl e)
    with i initializePinecone_error [of env s e] show ?thesis
      by (simp add: getRelevantSops_try_def)
  next
    case r1: (Inr u)
    show ?thesis
    proof (cases "pineconeIndex s1")
      case None
      with i r1 show ?thesis by (simp add: getRelevantSops_try_def)
    next
      case idx: (Some idx)
      show ?thesis
      proof (cases "embedText env s1 d")
        case t: (Pair r2 s2)
        show ?thesis
        proof (cases r2)
          case (Inl e)
          with t embedText_error [of env s1 d e] i r1 idx show ?thesis
            by (simp add: getRelevantSops_try_def)
        next
          case r2: (Inr v)
          show ?thesis
          proof (cases "index_query env (calls s2) idx \<lparr>vector = v, topK = 3, includeMetadata = True\<rparr>")
            case q: (Inl e)
            with i r1 idx t r2 have "fst (getRelevantSops_try env s d) = Inl e"
              by (simp add: getRelevantSops_try_def Let_def)
            with q show ?thesis by blast
          next
            case q: (Inr resp)
            show ?thesis
            proof (cases "matches resp")
              case None
              with i r1 idx t r2 q show ?thesis
                by (simp add: getRelevantSops_try_def Let_def)
            next
              case (Some ms)
              show ?thesis
              proof (cases "ms = []")
                case True
                with Some i r1 idx t r2 q show ?thesis
                  by (simp add: getRelevantSops_try_def Let_def)
              next
                case False
                with Some i r1 idx t r2 q
                have "fst (getRelevantSops_try env s d) = Inr (map (match_to_sop env) ms)"
                  by (simp add: getRelevantSops_try_def Let_def)
                with q Some show ?thesis by blast
              qed
            qed
          qed
        qed
      qed
    qed
  qed
qed

lemma try_init_fails:
  "fst (initializePinecone env s) = Inl e \<Longrightarrow> fst (getRelevantSops_try env s d) = Inl e"
  by (cases "initializePinecone env s") (simp add: getRelevantSops_try_def)

lemma try_no_index:
  "pineconeIndex (snd (initializePinecone env s)) = None \<Longrightarrow>
   fst (getRelevantSops_try env s d) = Inr []
   \<or> (\<exists>e. fst (initializePinecone env s) = Inl e \<and> fst (getRelevantSops_try env s d) = Inl e)"
  by (cases "initializePinecone env s") (auto simp: getRelevantSops_try_def split: sum.splits)

lemma try_embed_fails:
  "fst (embedText env (snd (initializePinecone env s)) d) = Inl e \<Longrightarrow>
   fst (getRelevantSops_try env s d) = Inr []
   \<or> fst (getRelevantSops_try env s d) = Inl e
   \<or> (\<exists>e'. fst (initializePinecone env s) = Inl e' \<and> fst (getRelevantSops_try env s d) = Inl e')"
  by (cases "initializePinecone env s"; cases "embedText env (snd (initializePinecone env s)) d")
     (auto simp: getRelevantSops_try_def split: sum.splits option.splits)

lemma try_query_fails:
  "fst (initializePinecone env s) = Inr () \<Longrightarrow>
   pineconeIndex (snd (initializePinecone env s)) = Some idx \<Longrightarrow>
   embedText env (snd (initializePinecone env s)) d = (Inr v, s2) \<Longrightarrow>
   index_query env (calls s2) idx \<lparr>vector = v, topK = 3, includeMetadata = True\<rparr> = Inl e \<Longrightarrow>
   fst (getRelevantSops_try env s d) = Inl e"
  by (cases "initializePinecone env s")
     (auto simp: getRelevantSops_try_def Let_def split: sum.splits option.splits)

text \<open>
  What \<open>getRelevantSops\<close> does with a failure: the list is empty when the initialisation
  of the client fails, when the index handle is \<open>null\<close> after the initialisation, when
  the embedding fails, and when the query fails with an error object. When the query
  is rejected with \<open>undefined\<close> or \<open>null\<close>, the TypeError of reading its message leaves
  \<open>getRelevantSops\<close>.
\<close>

lemma getRelevantSops_failures:
  "(\<forall>e. fst (initializePinecone env s) = Inl e \<longrightarrow> fst (getRelevantSops env s d) = Inr [])
   \<and> (pineconeIndex (snd (initializePinecone env s)) = None \<longrightarrow> fst (getRelevantSops env s d) = Inr [])
   \<and> (\<forall>e. fst (embedText env (snd (initializePinecone env s)) d) = Inl e \<longrightarrow>
          fst (getRelevantSops env s d) = Inr [])
   \<and> (\<forall>e idx v s2.
          fst (initializePinecone env s) = Inr () \<longrightarrow>
          pineconeIndex (snd (initializePinecone env s)) = Some idx \<longrightarrow>
          embedText env (snd (initializePinecone env s)) d = (Inr v, s2) \<longrightarrow>
          index_query env (calls s2) idx \<lparr>vector = v, topK = 3, includeMetadata = True\<rparr> = Inl e \<longrightarrow>
          fst (getRelevantSops env s d) =
            (if e = Undefined \<or> e = Null then rethrow e else Inr []))"
proof (intro conjI allI impI)
  fix e assume a: "fst (initializePinecone env s) = Inl e"
  from initializePinecone_error [OF a] try_init_fails [OF a, of d]
  show "fst (getRelevantSops env s d) = Inr []"
    by (simp add: getRelevantSops_error_caught)
next
  assume "pineconeIndex (snd (initializePinecone env s)) = None"
  from try_no_index [OF this, of d] show "fst (getRelevantSops env s d) = Inr []"
  proof (elim disjE exE conjE)
    assume "fst (getRelevantSops_try env s d) = Inr []"
    then show ?thesis by (simp add: getRelevantSops_fst)
  next
    fix e assume a: "fst (initializePinecone env s) = Inl e"
      and b: "fst (getRelevantSops_try env s d) = Inl e"
    from initializePinecone_error [OF a] b show ?thesis
      by (simp add: getRelevantSops_error_caught)
  qed
next
  fix e assume a: "fst (embedText env (snd (initializePinecone env s)) d) = Inl e"
  from try_embed_fails [OF a] show "fst (getRelevantSops env s d) = Inr []"
  proof (elim disjE exE conjE)
    assume "fst (getRelevantSops_try env s d) = Inr []"
    then show ?thesis by (simp add: getRelevantSops_fst)
  next
    assume b: "fst (getRelevantSops_try env s d) = Inl e"
    from embedText_error [OF a] b show ?thesis
      by (simp add: getRelevantSops_error_caught)
  next
    fix e' assume c: "fst (initializePinecone env s) = Inl e'"
      and b: "fst (getRelevantSops_try env s d) = Inl e'"
    from initializePinecone_error [OF c] b show ?thesis
      by (simp add: getRelevantSops_error_caught)
  qed
next
  fix e idx v s2
  assume "fst (initializePinecone env s) = Inr ()"
    and "pineconeIndex (snd (initializePinecone env s)) = Some idx"
    and "embedText env (snd (initializePinecone env s)) d = (Inr v, s2)"
    and "index_query env (calls s2) idx \<lparr>vector = v, topK = 3, includeMetadata = True\<rparr> = Inl e"
  from try_query_fails [OF this] have t: "fst (getRelevantSops_try env s d) = Inl e" .
  show "fst (getRelevantSops env s d) = (if e = Undefined \<or> e = Null then rethrow e else Inr [])"
  proof (cases "e = Undefined \<or> e = Null")
    case True
    with t show ?thesis by (simp add: getRelevantSops_nullish_raised)
  next
    case False
    with t show ?thesis by (simp add: getRelevantSops_error_caught)
  qed
qed

text \<open>
  C2. The claim says that \<open>getRelevantSops\<close> returns the empty list and does not raise
  whenever a step fails. With the client and the index initialised and the embedding
  done, a query that is rejected with \<open>undefined\<close> is a step that fails, and there
  \<open>getRelevantSops\<close> raises: its handler reads the message of the caught value before
  it returns \<open>[]\<close>, and the TypeError of that read leaves the function.
\<close>

theorem getRelevantSops_raises_on_undefined:
  "pineconeIndex (snd (initializePinecone ex_env_query_undefined ex_state1)) = Some ''sops-2vib48a''
   \<and> fst (embedText ex_env_query_undefined (snd (initializePinecone ex_env_query_undefined ex_state1))
             ''fix null pointer'') = Inr [1, 0, 0]
   \<and> index_query ex_env_query_undefined
        (calls (snd (embedText ex_env_query_undefined
                       (snd (initializePinecone ex_env_query_undefined ex_state1)) ''fix null pointer'')))
        ''sops-2vib48a'' \<lparr>vector = [1, 0, 0], topK = 3, includeMetadata = True\<rparr> = Inl Undefined
   \<and> fst (getRelevantSops ex_env_query_undefined ex_state1 ''fix null pointer'') =
       Inl (TypeError ''Cannot read properties of undefined (reading 'message')'')"
  by (simp add: getRelevantSops_def getRelevantSops_try_def initializePinecone_def embedText_def
      embedText_try_def initializeEmbedder_def try_catch_def Let_def ex_state1_def
      ex_env_query_undefined_def ex_env_def vector_of_output_def message_of_def)

lemma match_to_sop_text:
  "sop_text (match_to_sop env m) =
     (case match_metadata m of
        None \<Rightarrow> []
      | Some md \<Rightarrow> (case metadata_text env md of None \<Rightarrow> [] | Some t \<Rightarrow> t))"
  by (simp add: match_to_sop_def truthy_def Let_def split: option.splits)

lemma ex_honours: "honours_topK ex_env"
  by (auto simp: honours_topK_def ex_env_def)

text \<open>
  C4. With an index that returns at most \<open>topK\<close> matches, \<open>getRelevantSops\<close> returns at
  most 3 SOPs, one for each match of the query it made with \<open>topK = 3\<close>, in the order of
  the matches: the text is \<open>metadata.text\<close> or the empty string, and the id, the score
  and the metadata are those of the match. The one call that returns no list is the
  one whose query was rejected with \<open>undefined\<close> or \<open>null\<close>.
\<close>

theorem at_most_three_sops:
  assumes "honours_topK env"
  shows "(\<exists>sops ms.
           fst (getRelevantSops env s d) = Inr sops
         \<and> length sops \<le> 3
         \<and> length ms = length sops
         \<and> (ms = [] \<or>
              (\<exists>h idx v resp.
                 index_query env h idx \<lparr>vector = v, topK = 3, includeMetadata = True\<rparr> = Inr resp
                 \<and> matches resp = Some ms))
         \<and> (\<forall>k<length sops.
                sop_text (sops ! k) =
                  (case match_metadata (ms ! k) of
                     None \<Rightarrow> []
                   | Some md \<Rightarrow> (case metadata_text env md of None \<Rightarrow> [] | Some t \<Rightarrow> t))
              \<and> sop_id (sops ! k) = Some (match_id (ms ! k))
              \<and> sop_score (sops ! k) = match_score (ms ! k)
              \<and> sop_metadata (sops ! k) = match_metadata (ms ! k)))
       \<or> (\<exists>h idx v e.
             index_query env h idx \<lparr>vector = v, topK = 3, includeMetadata = True\<rparr> = Inl e
           \<and> (e = Undefined \<or> e = Null)
           \<and> fst (getRelevantSops env s d) = rethrow e)"
proof -
  let ?returns = "\<lambda>sops ms.
           fst (getRelevantSops env s d) = Inr sops
         \<and> length sops \<le> 3
         \<and> length ms = length sops
         \<and> (ms = [] \<or>
              (\<exists>h idx v resp.
                 index_query env h idx \<lparr>vector = v, topK = 3, includeMetadata = True\<rparr> = Inr resp
                 \<and> matches resp = Some ms))
         \<and> (\<forall>k<length sops.
                sop_text (sops ! k) =
                  (case match_metadata (ms ! k) of
                     None \<Rightarrow> []
                   | Some md \<Rightarrow> (case metadata_text env md of None \<Rightarrow> [] | Some t \<Rightarrow> t))
              \<and> sop_id (sops ! k) = Some (match_id (ms ! k))
              \<and> sop_score (sops ! k) = match_score (ms ! k)
              \<and> sop_metadata (sops ! k) = match_metadata (ms ! k))"
  have empty: "?returns [] []" if "fst (getRelevantSops env s d) = Inr []"
    using that by simp
  consider (err) e where "fst (getRelevantSops_try env s d) = Inl e" "e \<noteq> Undefined" "e \<noteq> Null"
    | (query) h idx v e where
        "index_query env h idx \<lparr>vector = v, topK = 3, includeMetadata = True\<rparr> = Inl e"
        "fst (getRelevantSops_try env s d) = Inl e"
    | (none) "fst (getRelevantSops_try env s d) = Inr []"
    | (some) h idx v resp ms where
        "index_query env h idx \<lparr>vector = v, topK = 3, includeMetadata = True\<rparr> = Inr resp"
        "matches resp = Some ms"
        "fst (getRelevantSops_try env s d) = Inr (map (match_to_sop env) ms)"
    using try_result [of env s d] by blast
  then show ?thesis
  proof cases
    case err
    then have "fst (getRelevantSops env s d) = Inr []"
      by (rule getRelevantSops_error_caught)
    then have "?returns [] []" by (rule empty)
    then show ?thesis by blast
  next
    case query
    show ?thesis
    proof (cases "e = Undefined \<or> e = Null")
      case True
      with query(2) have "fst (getRelevantSops env s d) = rethrow e"
        by (rule getRelevantSops_nullish_raised)
      with query(1) True show ?thesis by blast
    next
      case False
      with query(2) have "fst (getRelevantSops env s d) = Inr []"
        by (simp add: getRelevantSops_error_caught)
      then have "?returns [] []" by (rule empty)
      then show ?thesis by blast
    qed
  next
    case none
    then have "fst (getRelevantSops env s d) = Inr []"
      by (simp add: getRelevantSops_fst)
    then have "?returns [] []" by (rule empty)
    then show ?thesis by blast
  next
    case some
    let ?sops = "map (match_to_sop env) ms"
    from assms some(1,2) have len: "length ms \<le> 3"
      unfolding honours_topK_def by fastforce
    from some(3) have res: "fst (getRelevantSops env s d) = Inr ?sops"
      by (simp add: getRelevantSops_fst)
    have fields: "\<forall>k<length ?sops.
                sop_text (?sops ! k) =
                  (case match_metadata (ms ! k) of
                     None \<Rightarrow> []
                   | Some md \<Rightarrow> (case metadata_text env md of None \<Rightarrow> [] | Some t \<Rightarrow> t))
              \<and> sop_id (?sops ! k) = Some (match_id (ms ! k))
              \<and> sop_score (?sops ! k) = match_score (ms ! k)
              \<and> sop_metadata (?sops ! k) = match_metadata (ms ! k)"
      by (simp add: match_to_sop_text) (simp add: match_to_sop_def)
    have query: "ms = [] \<or>
              (\<exists>h idx v resp.
                 index_query env h idx \<lparr>vector = v, topK = 3, includeMetadata = True\<rparr> = Inr resp
                 \<and> matches resp = Some ms)"
      using some(1,2) by blast
    from len have len': "length ?sops \<le> 3" by simp
    have len'': "length ms = length ?sops" by simp
    have "?returns ?sops ms"
      by (intro conjI res len' len'' query fields)
    then show ?thesis by blast
  qed
qed

theorem at_most_three_sops_witness:
  "honours_topK ex_env
   \<and> (\<exists>sops. fst (getRelevantSops ex_env ex_state1 ''fix null pointer'') = Inr sops
         \<and> length sops \<le> 3)"
proof -
  have returned: "\<exists>sops. fst (getRelevantSops ex_env ex_state1 ''fix null pointer'') = Inr sops"
    by (simp add: ex_second_call)
  have "fst (getRelevantSops ex_env ex_state1 ''fix null pointer'') \<noteq> rethrow e" for e
    using returned by (cases e) (auto simp: rethrow_def message_of_def)
  with at_most_three_sops [OF ex_honours, of ex_state1 "''fix null pointer''"]
  obtain sops where "fst (getRelevantSops ex_env ex_state1 ''fix null pointer'') = Inr sops"
    and "length sops \<le> 3"
    by blast
  with ex_honours show ?thesis by blast
qed


section \<open>\<open>formatSopsForPrompt\<close>\<close>

lemma map_index_length: "length (map_index f i xs) = length xs"
  by (induction xs arbitrary: i) simp_all

lemma map_index_nth: "k < length xs \<Longrightarrow> map_index f i xs ! k = f (xs ! k) (i + k)"
proof (induction xs arbitrary: i k)
  case Nil
  then show ?case by simp
next
  case (Cons x xs)
  show ?case
  proof (cases k)
    case 0
    then show ?thesis by simp
  next
    case (Suc j)
    with Cons.prems have "j < length xs" by simp
    from Cons.IH [OF this, of "Suc i"] Suc show ?thesis by simp
  qed
qed

lemma sop_entry_layout:
  "sop_entry toFixed sop index =
     ordinal_heading toFixed (index + 1) sop @ ''\<newline>\<newline>'' @ sop_text sop"
  by (simp add: sop_entry_def ordinal_heading_def id_suffix_def relevance_suffix_def truthy_def
      split: option.splits)

text \<open>
  C9, as amended. The empty list is formatted to the empty string. A list of \<open>n > 0\<close>
  SOPs is formatted to \<open>n\<close> entries joined by a blank line between the two tags; entry
  \<open>k\<close> (from 1) is the heading with the ordinal \<open>k\<close>, the \<open>(ID: ...)\<close> suffix exactly when
  the SOP has an id that is not empty, the \<open>(relevance: ...)\<close> suffix with 3 digits
  exactly when it has a score, then a blank line and the text of the SOP.
\<close>

theorem formatSopsForPrompt_layout:
  "formatSopsForPrompt toFixed [] = []
   \<and> (sops \<noteq> [] \<longrightarrow>
        (\<exists>entries.
           length entries = length sops
         \<and> (\<forall>k<length sops.
               entries ! k =
                 ordinal_heading toFixed (k + 1) (sops ! k) @ ''\<newline>\<newline>'' @ sop_text (sops ! k))
         \<and> formatSopsForPrompt toFixed sops =
             ''\<newline><relevant_sops>\<newline>'' @ join ''\<newline>\<newline>'' entries
               @ ''\<newline></relevant_sops>\<newline>''))"
proof (intro conjI impI)
  show "formatSopsForPrompt toFixed [] = []"
    by (simp add: formatSopsForPrompt_def)
next
  assume ne: "sops \<noteq> []"
  let ?entries = "map_index (sop_entry toFixed) 0 sops"
  have len: "length ?entries = length sops"
    by (rule map_index_length)
  have nth: "\<forall>k<length sops.
               ?entries ! k =
                 ordinal_heading toFixed (k + 1) (sops ! k) @ ''\<newline>\<newline>'' @ sop_text (sops ! k)"
    by (simp add: map_index_nth sop_entry_layout)
  have fmt: "formatSopsForPrompt toFixed sops =
             ''\<newline><relevant_sops>\<newline>'' @ join ''\<newline>\<newline>'' ?entries
               @ ''\<newline></relevant_sops>\<newline>''"
    using ne by (simp add: formatSopsForPrompt_def)
  show "\<exists>entries.
           length entries = length sops
         \<and> (\<forall>k<length sops.
               entries ! k =
                 ordinal_heading toFixed (k + 1) (sops ! k) @ ''\<newline>\<newline>'' @ sop_text (sops ! k))
         \<and> formatSopsForPrompt toFixed sops =
             ''\<newline><relevant_sops>\<newline>'' @ join ''\<newline>\<newline>'' entries
               @ ''\<newline></relevant_sops>\<newline>''"
    by (rule exI [of _ ?entries]) (intro conjI len nth fmt)
qed

theorem formatSopsForPrompt_layout_witness:
  "ex_sops \<noteq> []
   \<and> formatSopsForPrompt ex_toFixed ex_sops =
       ''\<newline><relevant_sops>\<newline>### Relevant SOP 1 (ID: sop-1) (relevance: 9.000)\<newline>\<newline>Validate inputs\<newline>\<newline>### Relevant SOP 2\<newline>\<newline>Log errors\<newline></relevant_sops>\<newline>''"
proof -
  have ne: "ex_sops \<noteq> []"
    by (simp add: ex_sops_def)
  have len: "length ex_sops = 2"
    by (simp add: ex_sops_def)
  from formatSopsForPrompt_layout [of ex_toFixed ex_sops] ne len
  obtain entries where l: "length entries = 2"
    and n: "\<forall>k<2. entries ! k =
                 ordinal_heading ex_toFixed (k + 1) (ex_sops ! k) @ ''\<newline>\<newline>'' @ sop_text (ex_sops ! k)"
    and f: "formatSopsForPrompt ex_toFixed ex_sops =
             ''\<newline><relevant_sops>\<newline>'' @ join ''\<newline>\<newline>'' entries
               @ ''\<newline></relevant_sops>\<newline>''"
    by auto
  from n have n0: "entries ! 0 = ''### Relevant SOP 1 (ID: sop-1) (relevance: 9.000)\<newline>\<newline>Validate inputs''"
    by (simp add: ex_sops_def ordinal_heading_def id_suffix_def relevance_suffix_def ex_toFixed_def
        string_of_nat.simps digit_char_def eval_nat_numeral)
  from n have "entries ! 1 = ordinal_heading ex_toFixed (1 + 1) (ex_sops ! 1) @ ''\<newline>\<newline>'' @ sop_text (ex_sops ! 1)"
    by simp
  then have n1: "entries ! 1 = ''### Relevant SOP 2\<newline>\<newline>Log errors''"
    by (simp add: ex_sops_def ordinal_heading_def id_suffix_def relevance_suffix_def
        string_of_nat.simps digit_char_def)
  from l n0 n1 have "entries = [''### Relevant SOP 1 (ID: sop-1) (relevance: 9.000)\<newline>\<newline>Validate inputs'',
                                ''### Relevant SOP 2\<newline>\<newline>Log errors'']"
    by (auto simp: list_eq_iff_nth_eq less_Suc_eq numeral_2_eq_2)
  with f ne show ?thesis by simp
qed

text \<open>
  The claim C9 as it is written fails for an SOP whose id is the empty string: it has
  an id, and its heading has no \<open>(ID: ...)\<close> suffix.
\<close>

theorem empty_id_has_no_suffix:
  "sop_id ex_sop_empty_id = Some []
   \<and> formatSopsForPrompt ex_toFixed [ex_sop_empty_id] =
       ''\<newline><relevant_sops>\<newline>### Relevant SOP 1\<newline>\<newline>Use early returns\<newline></relevant_sops>\<newline>''"
  by (simp add: ex_sop_empty_id_def formatSopsForPrompt_def sop_entry_def truthy_def
      string_of_nat.simps digit_char_def)

end
